theory Spec2Isabelle
  imports Main "HOL-Library.Sublist"
begin

section \<open>Python values used by app.py\<close>

text \<open>
  A Python \<open>str\<close> is modelled as a \<open>string\<close>: one \<open>char\<close> per character of
  the text, in order. Exceptions are values; each carries the message that \<open>str(exc)\<close>
  gives. \<open>EnvironmentError\<close> is Python's alias of \<open>OSError\<close>; \<open>ImportError\<close>
  is what a failing \<open>import\<close> statement raises (\<open>ModuleNotFoundError\<close> is one);
  \<open>LibraryError\<close> stands for any other exception of class \<open>Exception\<close> raised
  inside a library (the PDF reader, the remote model client, the file system, the output
  streams); \<open>KeyboardInterrupt\<close> stands for the exceptions that are not of class
  \<open>Exception\<close> (\<open>KeyboardInterrupt\<close>, \<open>SystemExit\<close>), whose \<open>str\<close> is taken
  as empty.
\<close>

datatype exn =
    FileNotFoundError string
  | ValueError string
  | EnvironmentError string
  | RuntimeError string
  | ImportError string
  | LibraryError string
  | KeyboardInterrupt

fun str_exn :: "exn \<Rightarrow> string" where
  "str_exn (FileNotFoundError m) = m"
| "str_exn (ValueError m) = m"
| "str_exn (EnvironmentError m) = m"
| "str_exn (RuntimeError m) = m"
| "str_exn (ImportError m) = m"
| "str_exn (LibraryError m) = m"
| "str_exn KeyboardInterrupt = []"

text \<open>\<open>isinstance(exc, Exception)\<close>: what \<open>except Exception\<close> catches.\<close>

fun is_Exception :: "exn \<Rightarrow> bool" where
  "is_Exception KeyboardInterrupt = False"
| "is_Exception exc = True"

text \<open>\<open>x or ""\<close> for a value that is a string or \<open>None\<close>.\<close>

fun or_empty :: "string option \<Rightarrow> string" where
  "or_empty None = []"
| "or_empty (Some s) = s"

text \<open>
  \<open>str.isspace\<close> on one character, for the characters below 256: the ASCII
  whitespace and separators, NEL and the no-break space.
\<close>

definition is_space :: "char \<Rightarrow> bool" where
  "is_space c \<longleftrightarrow> (of_char c :: nat) \<in> {9, 10, 11, 12, 13, 28, 29, 30, 31, 32, 133, 160}"

text \<open>\<open>s.strip()\<close>: whitespace removed at both ends.\<close>

definition strip :: "string \<Rightarrow> string" where
  "strip s = rev (dropWhile is_space (rev (dropWhile is_space s)))"

text \<open>\<open>sep.join(xs)\<close>.\<close>

fun str_join :: "string \<Rightarrow> string list \<Rightarrow> string" where
  "str_join sep [] = []"
| "str_join sep [x] = x"
| "str_join sep (x # y # ys) = x @ sep @ str_join sep (y # ys)"

text \<open>The decimal form of a natural number, as an f-string renders an \<open>int\<close>.\<close>

fun str_nat :: "nat \<Rightarrow> string" where
  "str_nat n =
     (if n < 10 then [''0123456789'' ! n]
      else str_nat (n div 10) @ [''0123456789'' ! (n mod 10)])"

declare str_nat.simps [simp del]

text \<open>\<open>enumerate(xs, start)\<close>.\<close>

fun enumerate_from :: "nat \<Rightarrow> 'a list \<Rightarrow> (nat \<times> 'a) list" where
  "enumerate_from i [] = []"
| "enumerate_from i (x # xs) = (i, x) # enumerate_from (Suc i) xs"

text \<open>
  \<open>range(start, stop, step)\<close>: a zero step raises \<open>ValueError\<close>, a positive step
  counts up while below \<open>stop\<close>, a negative one counts down while above it.
\<close>

function range_up :: "int \<Rightarrow> int \<Rightarrow> int \<Rightarrow> int list" where
  "range_up i stop step =
     (if 0 < step \<and> i < stop then i # range_up (i + step) stop step else [])"
  by pat_completeness auto
termination
  by (relation "measure (\<lambda>(i, stop, step). nat (stop - i))") auto

function range_down :: "int \<Rightarrow> int \<Rightarrow> int \<Rightarrow> int list" where
  "range_down i stop step =
     (if step < 0 \<and> stop < i then i # range_down (i + step) stop step else [])"
  by pat_completeness auto
termination
  by (relation "measure (\<lambda>(i, stop, step). nat (i - stop))") auto

declare range_up.simps [simp del]
declare range_down.simps [simp del]

definition py_range :: "int \<Rightarrow> int \<Rightarrow> int \<Rightarrow> exn + int list" where
  "py_range start stop step =
     (if step = 0 then Inl (ValueError ''range() arg 3 must not be zero'')
      else if 0 < step then Inr (range_up start stop step)
      else Inr (range_down start stop step))"

text \<open>
  \<open>xs[lo:hi]\<close>: a negative bound counts from the end, and both bounds are clamped to
  the sequence.
\<close>

definition slice_bound :: "int \<Rightarrow> nat \<Rightarrow> nat" where
  "slice_bound i n = (if i < 0 then nat (max 0 (i + int n)) else min (nat i) n)"

definition py_slice :: "'a list \<Rightarrow> int \<Rightarrow> int \<Rightarrow> 'a list" where
  "py_slice xs lo hi =
     (let a = slice_bound lo (length xs); b = slice_bound hi (length xs)
      in take (b - a) (drop a xs))"

section \<open>The chunker\<close>

definition MAX_CONTEXT_CHARS :: int where
  "MAX_CONTEXT_CHARS = 120000"

text \<open>
  \<open>chunk_text\<close> is a generator; the model returns the list of the chunks it yields, in
  order, or the exception that \<open>range\<close> raises; \<open>sz\<close> is the parameter \<open>size\<close>.
\<close>

definition chunk_text :: "string \<Rightarrow> int \<Rightarrow> exn + string list" where
  "chunk_text text sz =
     (case py_range 0 (int (length text)) sz of
        Inl e \<Rightarrow> Inl e
      | Inr starts \<Rightarrow> Inr (map (\<lambda>i. py_slice text i (i + sz)) starts))"

section \<open>The prompt builder\<close>

text \<open>The fixed part of the template; \<open>CHR 0x27\<close> is the single quote.\<close>

definition INSTRUCTION :: string where
  "INSTRUCTION =
     ''You are a careful assistant. Use ONLY the provided PDF context to answer. '' @
     ''If the answer is not present, explicitly say: '' @ [CHR 0x27] @
     ''I could not find that in the PDF.'' @ [CHR 0x27] @ ''\<newline>\<newline>''"

definition build_prompt :: "string \<Rightarrow> string \<Rightarrow> string" where
  "build_prompt context question =
     INSTRUCTION @
     ''PDF CONTEXT:\<newline>'' @ context @ ''\<newline>\<newline>'' @
     ''QUESTION: '' @ question @ ''\<newline>'' @
     ''ANSWER:''"

section \<open>The world outside the program\<close>

text \<open>
  What the program reads from outside is a parameter of the model. A \<open>Path\<close> object
  is modelled by the string that \<open>str\<close> renders for it. Every call into a library
  either returns or raises:
  \<^item> \<open>load_dotenv\<close>: \<open>None\<close> when the dotenv package cannot be imported, otherwise
    the outcome of \<open>load_dotenv(env_path)\<close>: the process environment it leaves, or
    the exception it raises;
  \<^item> \<open>path_str\<close>: for a string \<open>s\<close>, the rendering \<open>str(Path(s))\<close>, which is
    \<open>s\<close> brought to the normal form of \<open>pathlib\<close>;
  \<^item> \<open>path_exists\<close>, \<open>path_is_file\<close>: \<open>Path.exists\<close> and \<open>Path.is_file\<close>;
  \<^item> \<open>pdf_pages\<close>: the outcome of \<open>PdfReader(str(pdf_path))\<close> and, for each page
    of \<open>reader.pages\<close> in order, the outcome of \<open>page.extract_text()\<close>;
  \<^item> \<open>genai_import\<close>: the outcome of \<open>import google.generativeai\<close>: \<open>None\<close>
    when the module is imported, otherwise the exception raised;
  \<^item> \<open>generate_content\<close>: for a model name, the number of calls made to the remote
    model so far in the run and a prompt, the outcome of
    \<open>model.generate_content(prompt).text\<close>;
  \<^item> \<open>write_text\<close>: \<open>Path.write_text\<close>, which raises or succeeds;
  \<^item> \<open>print_result\<close>: for a stream and a text, the outcome of \<open>print\<close> of the
    text to the stream: \<open>None\<close> when it is written, otherwise the exception raised.
\<close>

type_synonym environ = "string \<rightharpoonup> string"

datatype stream = Stdout | Stderr

record world =
  load_dotenv :: "(string \<Rightarrow> environ \<Rightarrow> exn + environ) option"
  path_str :: "string \<Rightarrow> string"
  path_exists :: "string \<Rightarrow> bool"
  path_is_file :: "string \<Rightarrow> bool"
  pdf_pages :: "string \<Rightarrow> exn + (exn + string option) list"
  genai_import :: "exn option"
  generate_content :: "string \<Rightarrow> nat \<Rightarrow> string \<Rightarrow> exn + string option"
  write_text :: "string \<Rightarrow> string \<Rightarrow> exn option"
  print_result :: "stream \<Rightarrow> string \<Rightarrow> exn option"

text \<open>
  \<open>load_env_file\<close> returns nothing; the model gives the process environment after the
  call, or the exception that leaves it. Only the \<open>ImportError\<close> is caught.
\<close>

definition load_env_file :: "world \<Rightarrow> string \<Rightarrow> environ \<Rightarrow> exn + environ" where
  "load_env_file w env_path environ =
     (case load_dotenv w of
        None \<Rightarrow> Inr environ
      | Some load \<Rightarrow> load env_path environ)"

section \<open>The text extractor\<close>

definition page_section :: "nat \<Rightarrow> string \<Rightarrow> string" where
  "page_section idx text = ''--- Page '' @ str_nat idx @ '' ---\<newline>'' @ text"

text \<open>The loop over \<open>enumerate(reader.pages, start=1)\<close>, with \<open>all_text\<close> as accumulator.\<close>

fun page_loop :: "nat \<Rightarrow> (exn + string option) list \<Rightarrow> string list \<Rightarrow> exn + string list" where
  "page_loop idx [] all_text = Inr all_text"
| "page_loop idx (page # pages) all_text =
     (case page of
        Inl e \<Rightarrow> Inl e
      | Inr extracted \<Rightarrow>
          (let text = strip (or_empty extracted)
           in if text \<noteq> []
              then page_loop (Suc idx) pages (all_text @ [page_section idx text])
              else page_loop (Suc idx) pages all_text))"

definition extract_pdf_text :: "world \<Rightarrow> string \<Rightarrow> exn + string" where
  "extract_pdf_text w pdf_path =
     (if \<not> path_exists w pdf_path \<or> \<not> path_is_file w pdf_path
      then Inl (FileNotFoundError (''PDF file not found: '' @ pdf_path))
      else case pdf_pages w pdf_path of
        Inl e \<Rightarrow> Inl e
      | Inr pages \<Rightarrow>
          (case page_loop 1 pages [] of
             Inl e \<Rightarrow> Inl e
           | Inr all_text \<Rightarrow>
               (let combined = strip (str_join ''\<newline>\<newline>'' all_text)
                in if combined = []
                   then Inl (ValueError ''Could not extract any text from the PDF.'')
                   else Inr combined)))"

text \<open>
  What the loop is to collect, in the words of the specification: the pages in order,
  numbered from 1, each text trimmed, the pages whose trimmed text is empty skipped, and
  each kept text under its page marker.
\<close>

definition page_sections :: "string option list \<Rightarrow> string list" where
  "page_sections texts =
     map (\<lambda>(idx, t). page_section idx (strip (or_empty t)))
       (filter (\<lambda>(idx, t). strip (or_empty t) \<noteq> []) (enumerate_from 1 texts))"

section \<open>The answer aggregator\<close>

text \<open>
  The loop over the chunks. \<open>gen\<close> is the remote model; \<open>sent\<close> is the list of the
  prompts sent so far, oldest first. An exception of the remote call leaves the loop.
\<close>

fun ask_chunks ::
  "(nat \<Rightarrow> string \<Rightarrow> exn + string option) \<Rightarrow> string \<Rightarrow> string list \<Rightarrow> string list \<Rightarrow>
   string list \<Rightarrow> (exn + string list) \<times> string list" where
  "ask_chunks gen question [] responses sent = (Inr responses, sent)"
| "ask_chunks gen question (chunk # chunks) responses sent =
     (let prompt = build_prompt chunk question
      in case gen (length sent) prompt of
           Inl e \<Rightarrow> (Inl e, sent @ [prompt])
         | Inr result_text \<Rightarrow>
             (let text = strip (or_empty result_text)
              in if text \<noteq> []
                 then ask_chunks gen question chunks (responses @ [text]) (sent @ [prompt])
                 else ask_chunks gen question chunks responses (sent @ [prompt])))"

definition MERGE_INSTRUCTION :: string where
  "MERGE_INSTRUCTION =
     ''You are given multiple partial answers extracted from different PDF chunks. '' @
     ''Merge them into one concise final answer. If conflicting, prefer overlap across chunks.\<newline>\<newline>''"

definition summary_prompt :: "string list \<Rightarrow> string" where
  "summary_prompt responses =
     MERGE_INSTRUCTION @
     str_join ''\<newline>\<newline>''
       (map (\<lambda>(i, r). ''Partial answer '' @ str_nat (i + 1) @ '':\<newline>'' @ r)
          (enumerate_from 0 responses))"

text \<open>
  \<open>ask_gemini\<close> returns its result, or the exception it raises, together with the
  prompts it has sent to the remote model. Its first statement is the import of the
  client library, which raises where the library cannot be imported; importing and
  configuring the library sends nothing.
\<close>

definition ask_gemini ::
  "world \<Rightarrow> environ \<Rightarrow> string \<Rightarrow> string \<Rightarrow> string \<Rightarrow> (exn + string) \<times> string list" where
  "ask_gemini w environ pdf_text question model_name =
     (case genai_import w of
        Some e \<Rightarrow> (Inl e, [])
      | None \<Rightarrow>
     (let api_key = or_empty (environ ''GEMINI_API_KEY'')
      in if api_key = []
         then (Inl (EnvironmentError ''GEMINI_API_KEY is not set. Configure it in env or .env.''), [])
         else case chunk_text pdf_text MAX_CONTEXT_CHARS of
           Inl e \<Rightarrow> (Inl e, [])
         | Inr chunks \<Rightarrow>
             (case ask_chunks (generate_content w model_name) question chunks [] [] of
                (Inl e, sent) \<Rightarrow> (Inl e, sent)
              | (Inr responses, sent) \<Rightarrow>
                  if responses = []
                  then (Inl (RuntimeError ''Gemini returned an empty response.''), sent)
                  else if length responses = 1
                  then (Inr (responses ! 0), sent)
                  else
                    (case generate_content w model_name (length sent) (summary_prompt responses) of
                       Inl e \<Rightarrow> (Inl e, sent @ [summary_prompt responses])
                     | Inr final_text \<Rightarrow>
                         (let final = strip (or_empty final_text)
                          in (Inr (if final \<noteq> [] then final
                                   else str_join ''\<newline>\<newline>'' responses),
                              sent @ [summary_prompt responses]))))))"

section \<open>The command-line driver\<close>

text \<open>
  The parsed arguments; \<open>save_answer\<close> is \<open>None\<close> when the flag is not given. A run
  of \<open>main\<close> after \<open>parse_args\<close> ends with the status it returns (\<open>Inr\<close>) or with
  an exception that leaves it (\<open>Inl\<close>); \<open>stdout\<close> and \<open>stderr\<close> hold one entry per
  \<open>print\<close> call that has written its text, \<open>prompts\<close> the prompts sent to the remote
  model, \<open>files\<close> the files written.
\<close>

record args =
  pdf :: string
  question :: string
  model :: string
  save_answer :: "string option"
  env_file :: string

record run =
  outcome :: "exn + int"
  stdout :: "string list"
  stderr :: "string list"
  prompts :: "string list"
  files :: "(string \<times> string) list"

text \<open>
  A sequence of \<open>print\<close> calls: the texts written, and the exception of the first call
  that raises, if one does.
\<close>

fun print_all :: "(string \<Rightarrow> exn option) \<Rightarrow> string list \<Rightarrow> string list \<times> exn option" where
  "print_all pr [] = ([], None)"
| "print_all pr (line # lines) =
     (case pr line of
        Some e \<Rightarrow> ([], Some e)
      | None \<Rightarrow> (case print_all pr lines of (printed, r) \<Rightarrow> (line # printed, r)))"

text \<open>
  In \<open>main\<close>, \<open>attempt\<close> is the body of the \<open>try\<close> statement: the extraction and
  then the aggregation. The handler catches what is of class \<open>Exception\<close>; the call
  of \<open>load_env_file\<close> before the \<open>try\<close> statement and everything after it run
  outside it.
\<close>

definition main :: "world \<Rightarrow> environ \<Rightarrow> args \<Rightarrow> run" where
  "main w os_environ a =
     (case load_env_file w (env_file a) os_environ of
        Inl e \<Rightarrow> \<lparr>outcome = Inl e, stdout = [], stderr = [], prompts = [], files = []\<rparr>
      | Inr environ \<Rightarrow>
     (let attempt =
            (case extract_pdf_text w (path_str w (pdf a)) of
               Inl exc \<Rightarrow> (Inl exc, [])
             | Inr pdf_text \<Rightarrow> ask_gemini w environ pdf_text (question a) (model a))
      in case attempt of
           (Inl exc, sent) \<Rightarrow>
             if is_Exception exc
             then (case print_result w Stderr (''Error: '' @ str_exn exc) of
                     Some e \<Rightarrow>
                       \<lparr>outcome = Inl e, stdout = [], stderr = [], prompts = sent, files = []\<rparr>
                   | None \<Rightarrow>
                       \<lparr>outcome = Inr 1, stdout = [], stderr = [''Error: '' @ str_exn exc],
                        prompts = sent, files = []\<rparr>)
             else \<lparr>outcome = Inl exc, stdout = [], stderr = [], prompts = sent, files = []\<rparr>
         | (Inr answer, sent) \<Rightarrow>
             (case print_all (print_result w Stdout)
                     [''\<newline>=== Question ==='', question a, ''\<newline>=== Answer ==='', answer] of
                (printed, Some e) \<Rightarrow>
                  \<lparr>outcome = Inl e, stdout = printed, stderr = [], prompts = sent, files = []\<rparr>
              | (printed, None) \<Rightarrow>
                  if or_empty (save_answer a) = []
                  then \<lparr>outcome = Inr 0, stdout = printed, stderr = [], prompts = sent,
                        files = []\<rparr>
                  else
                    (let out = path_str w (or_empty (save_answer a))
                     in case write_text w out (answer @ ''\<newline>'') of
                          Some exc \<Rightarrow>
                            \<lparr>outcome = Inl exc, stdout = printed, stderr = [], prompts = sent,
                             files = []\<rparr>
                        | None \<Rightarrow>
                            (case print_result w Stdout (''\<newline>Saved answer to: '' @ out) of
                               Some e \<Rightarrow>
                                 \<lparr>outcome = Inl e, stdout = printed, stderr = [],
                                  prompts = sent, files = [(out, answer @ ''\<newline>'')]\<rparr>
                             | None \<Rightarrow>
                                 \<lparr>outcome = Inr 0,
                                  stdout = printed @ [''\<newline>Saved answer to: '' @ out],
                                  stderr = [], prompts = sent,
                                  files = [(out, answer @ ''\<newline>'')]\<rparr>)))))"

section \<open>Sample inputs\<close>

text \<open>
  Concrete inputs on which the theorems below are exercised: a world with one PDF at
  \<open>doc.pdf\<close> whose pages have the given texts, a client library that is installed,
  a remote model that gives the listed replies call by call and is unreachable
  afterwards, a file system whose write has the given result, and streams that take
  every print; arguments for \<open>main\<close>; the same world with a PDF that the library
  does not read, with a client library that is not installed, and with streams that are
  closed; a text one character longer than a chunk; and the text extracted from the
  single page \<open>hello\<close>. The file names used are in the normal form of
  \<open>pathlib\<close>, which renders them unchanged.
\<close>

definition test_world :: "string option list \<Rightarrow> string option list \<Rightarrow> exn option \<Rightarrow> world" where
  "test_world texts replies write_result =
     \<lparr>load_dotenv = None,
      path_str = (\<lambda>s. s),
      path_exists = (\<lambda>p. p = ''doc.pdf''),
      path_is_file = (\<lambda>p. p = ''doc.pdf''),
      pdf_pages = (\<lambda>p. Inr (map Inr texts)),
      genai_import = None,
      generate_content =
        (\<lambda>m n p. if n < length replies then Inr (replies ! n) else Inl (LibraryError ''offline'')),
      write_text = (\<lambda>p s. write_result),
      print_result = (\<lambda>s line. None)\<rparr>"

definition test_args :: "string \<Rightarrow> string option \<Rightarrow> args" where
  "test_args path save =
     \<lparr>pdf = path, question = ''q'', model = ''gemini-1.5-flash'', save_answer = save,
      env_file = ''.env''\<rparr>"

definition unreadable_pdf_world :: "exn \<Rightarrow> world" where
  "unreadable_pdf_world e = (test_world [] [] None)\<lparr>pdf_pages := (\<lambda>p. Inl e)\<rparr>"

definition no_client_world :: world where
  "no_client_world =
     (test_world [] [Some ''yes''] None)
       \<lparr>genai_import := Some (ImportError ''No module named google.generativeai'')\<rparr>"

definition closed_streams_world :: world where
  "closed_streams_world =
     (test_world [] [] None)\<lparr>print_result := (\<lambda>s line. Some (LibraryError ''broken pipe''))\<rparr>"

definition long_text :: string where
  "long_text = replicate 120000 (CHR ''a'') @ ''b''"

definition page_text :: string where
  "page_text = ''--- Page 1 ---\<newline>hello''"

section \<open>The chunker: properties\<close>

lemma slice_chunk:
  assumes "0 \<le> i" "0 < sz"
  shows "py_slice xs i (i + sz) = take (nat sz) (drop (nat i) xs)"
proof -
  have a: "slice_bound i (length xs) = min (nat i) (length xs)"
    using assms by (simp add: slice_bound_def)
  have b: "slice_bound (i + sz) (length xs) = min (nat (i + sz)) (length xs)"
    using assms by (simp add: slice_bound_def)
  show ?thesis
  proof (cases "nat i \<le> length xs")
    case True
    then have "min (nat (i + sz)) (length xs) - nat i = min (nat sz) (length xs - nat i)"
      using assms by (simp add: min_def nat_add_distrib)
    with True show ?thesis
      unfolding py_slice_def Let_def a b by (simp add: min_def)
  next
    case False
    then show ?thesis
      unfolding py_slice_def Let_def a b by simp
  qed
qed

lemma concat_range_up:
  "0 \<le> i \<Longrightarrow> 0 < sz \<Longrightarrow>
   concat (map (\<lambda>j. py_slice xs j (j + sz)) (range_up i (int (length xs)) sz))
     = drop (nat i) xs"
proof (induction i "int (length xs)" sz rule: range_up.induct)
  case (1 i step)
  show ?case
  proof (cases "i < int (length xs)")
    case True
    have eq: "drop (nat (i + step)) xs = drop (nat step) (drop (nat i) xs)"
      using "1.prems" by (simp add: nat_add_distrib add.commute)
    have split: "take (nat step) (drop (nat i) xs) @ drop (nat step) (drop (nat i) xs)
                   = drop (nat i) xs"
      by (rule append_take_drop_id)
    have "concat (map (\<lambda>j. py_slice xs j (j + step)) (range_up (i + step) (int (length xs)) step))
            = drop (nat (i + step)) xs"
      using "1.hyps" "1.prems" True by simp
    then show ?thesis
      using "1.prems" True split
      by (subst range_up.simps) (simp add: slice_chunk eq del: drop_drop append_take_drop_id)
  next
    case False
    then show ?thesis
      using "1.prems" by (subst range_up.simps) simp
  qed
qed

lemma range_up_bounds:
  "j \<in> set (range_up i stop step) \<Longrightarrow> i \<le> j \<and> j < stop"
proof (induction i stop step rule: range_up.induct)
  case (1 i stop step)
  show ?case
  proof (cases "0 < step \<and> i < stop")
    case True
    then have "j = i \<or> j \<in> set (range_up (i + step) stop step)"
      using "1.prems" by (subst (asm) range_up.simps) simp
    then show ?thesis
      using "1.IH" True by auto
  next
    case False
    then have "range_up i stop step = []"
      by (subst range_up.simps) simp
    then show ?thesis
      using "1.prems" by simp
  qed
qed

lemma chunk_text_pos:
  "0 < sz \<Longrightarrow>
   chunk_text T sz = Inr (map (\<lambda>i. py_slice T i (i + sz)) (range_up 0 (int (length T)) sz))"
  by (simp add: chunk_text_def py_range_def)

lemma chunk_text_scenario_small: "chunk_text ''abcdef'' 10 = Inr [''abcdef'']"
  by (simp add: chunk_text_def py_range_def range_up.simps py_slice_def slice_bound_def)

lemma chunk_text_scenario_split:
  "chunk_text ''abcdefghij'' 4 = Inr [''abcd'', ''efgh'', ''ij'']"
  by (simp add: chunk_text_def py_range_def range_up.simps py_slice_def slice_bound_def)

lemma chunk_text_zero: "chunk_text T 0 = Inl (ValueError ''range() arg 3 must not be zero'')"
  by (simp add: chunk_text_def py_range_def)

text \<open>
  C1. For every text \<open>T\<close> and every positive size, \<open>chunk_text\<close> yields a list of
  chunks, and the chunks concatenated in the order they are yielded are exactly \<open>T\<close>.
\<close>

theorem chunk_text_concat:
  "0 < sz \<Longrightarrow> \<exists>chunks. chunk_text T sz = Inr chunks \<and> concat chunks = T"
  using concat_range_up [of 0 sz T] by (simp add: chunk_text_pos)

theorem chunk_text_concat_witness:
  "(0::int) < 4 \<and>
   (\<exists>chunks. chunk_text ''abcdefghij'' 4 = Inr chunks \<and> concat chunks = ''abcdefghij'')"
  using chunk_text_concat [of 4 "''abcdefghij''"] by simp

text \<open>
  C6, as stated: every text no longer than the positive size yields exactly one chunk,
  equal to the text. The empty text is no longer than any positive size and yields no
  chunk at all.
\<close>

theorem chunk_text_single_counterexample:
  "int (length ([] :: string)) \<le> 10 \<and> chunk_text [] 10 = Inr [] \<and> chunk_text [] 10 \<noteq> Inr [[]]"
  by (simp add: chunk_text_def py_range_def range_up.simps)

text \<open>
  C6, amended: every non-empty text no longer than the positive size yields exactly one
  chunk, and that chunk is the text.
\<close>

theorem chunk_text_single:
  assumes "T \<noteq> []" and "int (length T) \<le> sz"
  shows "chunk_text T sz = Inr [T]"
proof -
  have len: "0 < int (length T)"
    using assms by simp
  then have pos: "0 < sz"
    using assms by linarith
  have stop: "range_up (0 + sz) (int (length T)) sz = []"
    using assms by (subst range_up.simps) simp
  have "range_up 0 (int (length T)) sz = [0]"
    using pos len stop by (subst range_up.simps) simp
  moreover have "py_slice T 0 (0 + sz) = T"
  proof -
    have "py_slice T 0 (0 + sz) = take (nat sz) (drop (nat 0) T)"
      using pos by (rule slice_chunk [OF order_refl])
    also have "\<dots> = T"
      using assms by simp
    finally show ?thesis .
  qed
  ultimately show ?thesis
    using pos by (simp add: chunk_text_pos)
qed

theorem chunk_text_single_witness:
  "''abcdef'' \<noteq> [] \<and> int (length ''abcdef'') \<le> 10 \<and> chunk_text ''abcdef'' 10 = Inr [''abcdef'']"
  using chunk_text_single [of "''abcdef''" 10] by simp

text \<open>
  C7. For every positive size no chunk that \<open>chunk_text\<close> yields is empty, and the
  empty text yields no chunk.
\<close>

theorem chunk_text_nonempty_chunks:
  assumes "0 < sz"
  shows "(\<exists>chunks. chunk_text T sz = Inr chunks \<and> [] \<notin> set chunks) \<and> chunk_text [] sz = Inr []"
proof -
  have "py_slice T j (j + sz) \<noteq> []" if "j \<in> set (range_up 0 (int (length T)) sz)" for j
  proof -
    have "0 \<le> j" and "j < int (length T)"
      using range_up_bounds [OF that] by auto
    then show ?thesis
      using assms by (simp add: slice_chunk)
  qed
  then have "[] \<notin> set (map (\<lambda>i. py_slice T i (i + sz)) (range_up 0 (int (length T)) sz))"
    by force
  moreover have "range_up 0 (int (length ([] :: string))) sz = []"
    by (subst range_up.simps) simp
  ultimately show ?thesis
    using assms by (simp add: chunk_text_pos)
qed

theorem chunk_text_nonempty_chunks_witness:
  "(0::int) < 4 \<and>
   (\<exists>chunks. chunk_text ''abcdefghij'' 4 = Inr chunks \<and> [] \<notin> set chunks) \<and>
   chunk_text [] 4 = Inr []"
  using chunk_text_nonempty_chunks [of 4 "''abcdefghij''"] by simp

section \<open>The prompt builder: properties\<close>

text \<open>
  C8. \<open>build_prompt\<close> is a function of the context and the question alone, and its
  result contains the context, the question and the fixed instruction text, each as an
  unmodified contiguous substring.
\<close>

theorem build_prompt_contains:
  "sublist ctx (build_prompt ctx q) \<and> sublist q (build_prompt ctx q) \<and>
   sublist INSTRUCTION (build_prompt ctx q) \<and>
   sublist ''I could not find that in the PDF.'' (build_prompt ctx q)"
proof -
  let ?a = "INSTRUCTION @ ''PDF CONTEXT:\<newline>''"
  let ?b = "''\<newline>\<newline>'' @ ''QUESTION: ''"
  let ?c = "''\<newline>'' @ ''ANSWER:''"
  have shape: "build_prompt ctx q = ?a @ ctx @ ?b @ q @ ?c"
    by (simp add: build_prompt_def)
  have "sublist ctx (?a @ ctx @ (?b @ q @ ?c))"
    by (rule sublist_appendI)
  then have c1: "sublist ctx (build_prompt ctx q)"
    by (simp add: shape)
  have "sublist q ((?a @ ctx @ ?b) @ q @ ?c)"
    by (rule sublist_appendI)
  then have c2: "sublist q (build_prompt ctx q)"
    by (simp add: shape)
  have "sublist INSTRUCTION ([] @ INSTRUCTION @ (''PDF CONTEXT:\<newline>'' @ ctx @ ?b @ q @ ?c))"
    by (rule sublist_appendI)
  then have c3: "sublist INSTRUCTION (build_prompt ctx q)"
    by (simp add: shape)
  have "sublist ''I could not find that in the PDF.''
          ((''You are a careful assistant. Use ONLY the provided PDF context to answer. '' @
            ''If the answer is not present, explicitly say: '' @ [CHR 0x27]) @
           ''I could not find that in the PDF.'' @ ([CHR 0x27] @ ''\<newline>\<newline>''))"
    by (rule sublist_appendI)
  then have "sublist ''I could not find that in the PDF.'' INSTRUCTION"
    by (simp add: INSTRUCTION_def)
  then have c4: "sublist ''I could not find that in the PDF.'' (build_prompt ctx q)"
    using c3 sublist_order.order_trans by blast
  show ?thesis
    using c1 c2 c3 c4 by simp
qed

section \<open>The text extractor: properties\<close>

lemma strip_empty_iff: "strip s = [] \<longleftrightarrow> (\<forall>c \<in> set s. is_space c)"
proof -
  have "strip s = [] \<longleftrightarrow> (\<forall>c \<in> set (dropWhile is_space s). is_space c)"
    by (simp add: strip_def dropWhile_eq_Nil_conv)
  also have "\<dots> \<longleftrightarrow> (\<forall>c \<in> set s. is_space c)"
  proof
    assume h: "\<forall>c \<in> set (dropWhile is_space s). is_space c"
    show "\<forall>c \<in> set s. is_space c"
    proof (cases "dropWhile is_space s")
      case Nil
      then show ?thesis by (simp add: dropWhile_eq_Nil_conv)
    next
      case (Cons c cs)
      then have "\<not> is_space c" using hd_dropWhile [of is_space s] by simp
      moreover have "is_space c" using h Cons by simp
      ultimately show ?thesis by simp
    qed
  next
    assume "\<forall>c \<in> set s. is_space c"
    then show "\<forall>c \<in> set (dropWhile is_space s). is_space c"
      using set_dropWhileD by fastforce
  qed
  finally show ?thesis .
qed

lemma strip_id:
  assumes "s \<noteq> []" "\<not> is_space (hd s)" "\<not> is_space (last s)"
  shows "strip s = s"
proof -
  have a: "dropWhile is_space s = s"
    using assms by (cases s) simp_all
  have "rev s \<noteq> []" "\<not> is_space (hd (rev s))"
    using assms by (simp_all add: hd_rev)
  then have b: "dropWhile is_space (rev s) = rev s"
    by (cases "rev s") simp_all
  show ?thesis
    by (simp add: strip_def a b)
qed

lemma strip_ends:
  assumes "strip s \<noteq> []"
  shows "\<not> is_space (hd (strip s)) \<and> \<not> is_space (last (strip s))"
proof -
  let ?d = "dropWhile is_space s"
  let ?e = "dropWhile is_space (rev ?d)"
  have e: "?e \<noteq> []" using assms by (simp add: strip_def)
  have d: "?d \<noteq> []"
  proof
    assume a: "?d = []"
    have "?e = dropWhile is_space (rev [])" by (simp only: a)
    with e show False by simp
  qed
  have l: "\<not> is_space (hd ?e)" using e hd_dropWhile by blast
  have "last (strip s) = hd ?e"
    using e by (simp add: strip_def last_rev)
  moreover have "hd (strip s) = hd ?d"
  proof -
    have "\<not> is_space (hd ?d)" using d hd_dropWhile by blast
    then have "\<not> is_space (last (rev ?d))" using d by (simp add: last_rev)
    obtain ys where "rev ?d = ys @ ?e" by (metis takeWhile_dropWhile_id)
    then have "?d = rev ?e @ rev ys" by (metis rev_append rev_rev_ident)
    then have "hd ?d = hd (rev ?e)" using e by (metis hd_append2 rev_is_Nil_conv)
    then show ?thesis by (simp add: strip_def)
  qed
  moreover have "\<not> is_space (hd ?d)" using d hd_dropWhile by blast
  ultimately show ?thesis using l by simp
qed

lemma str_join_ends:
  assumes "xs \<noteq> []" "[] \<notin> set xs"
  shows "str_join sep xs \<noteq> [] \<and> hd (str_join sep xs) = hd (hd xs) \<and>
         last (str_join sep xs) = last (last xs)"
  using assms
proof (induction sep xs rule: str_join.induct)
  case (1 sep)
  then show ?case by simp
next
  case (2 sep x)
  then show ?case by simp
next
  case (3 sep x y ys)
  then have "str_join sep (y # ys) \<noteq> []" and "last (str_join sep (y # ys)) = last (last (y # ys))"
    by auto
  moreover have "x \<noteq> []" using "3.prems" by auto
  ultimately show ?case by simp
qed

lemma map_snd_enumerate_from: "map snd (enumerate_from i xs) = xs"
  by (induction xs arbitrary: i) simp_all

lemma page_loop_sections:
  "page_loop idx (map Inr texts) acc =
     Inr (acc @ map (\<lambda>(idx, t). page_section idx (strip (or_empty t)))
                  (filter (\<lambda>(idx, t). strip (or_empty t) \<noteq> []) (enumerate_from idx texts)))"
  by (induction texts arbitrary: idx acc) (simp_all add: Let_def)

lemma page_loop_from_one:
  "page_loop (Suc 0) (map Inr texts) [] = Inr (page_sections texts)"
  by (simp add: page_loop_sections page_sections_def)

lemma page_sections_empty_iff:
  "page_sections texts = [] \<longleftrightarrow> (\<forall>t \<in> set texts. strip (or_empty t) = [])"
proof -
  have "page_sections texts = [] \<longleftrightarrow>
        (\<forall>p \<in> set (enumerate_from 1 texts). strip (or_empty (snd p)) = [])"
    by (auto simp: page_sections_def filter_empty_conv)
  also have "\<dots> \<longleftrightarrow> (\<forall>t \<in> set (map snd (enumerate_from 1 texts)). strip (or_empty t) = [])"
    by simp
  finally show ?thesis
    by (simp only: map_snd_enumerate_from)
qed

lemma page_section_ends:
  assumes "strip t \<noteq> []"
  shows "page_section idx (strip t) \<noteq> [] \<and> \<not> is_space (hd (page_section idx (strip t))) \<and>
         \<not> is_space (last (page_section idx (strip t)))"
  using assms strip_ends [OF assms] by (simp add: page_section_def is_space_def)

lemma strip_join_page_sections:
  assumes "page_sections texts \<noteq> []"
  shows "strip (str_join sep (page_sections texts)) = str_join sep (page_sections texts)"
    and "str_join sep (page_sections texts) \<noteq> []"
proof -
  let ?ps = "page_sections texts"
  have good: "x \<noteq> [] \<and> \<not> is_space (hd x) \<and> \<not> is_space (last x)" if "x \<in> set ?ps" for x
    using that page_section_ends by (auto simp: page_sections_def)
  then have ne: "[] \<notin> set ?ps" by blast
  have j: "str_join sep ?ps \<noteq> []" "hd (str_join sep ?ps) = hd (hd ?ps)"
    "last (str_join sep ?ps) = last (last ?ps)"
    using str_join_ends [OF assms ne] by simp_all
  have "hd ?ps \<in> set ?ps" "last ?ps \<in> set ?ps"
    using assms by simp_all
  then have "\<not> is_space (hd (hd ?ps))" "\<not> is_space (last (last ?ps))"
    using good by blast+
  then show "strip (str_join sep ?ps) = str_join sep ?ps"
    using j by (simp add: strip_id)
  show "str_join sep ?ps \<noteq> []" by (rule j(1))
qed

lemma extract_pdf_text_library_error:
  "path_exists w p \<Longrightarrow> path_is_file w p \<Longrightarrow> pdf_pages w p = Inl e \<Longrightarrow>
   extract_pdf_text w p = Inl e"
  by (simp add: extract_pdf_text_def)

text \<open>
  C5, as stated: \<open>extract_pdf_text\<close> fails with \<open>FileNotFoundError\<close> when the path
  is missing or not a regular file, with the \<open>ValueError\<close> of the empty content when
  the joined page texts are empty, and in every other case it returns the joined text.
  In the run below the path is an existing regular file that the PDF library does not
  read: the library's exception is raised, which is none of the three.
\<close>

theorem extract_pdf_text_library_counterexample:
  "path_exists (unreadable_pdf_world (LibraryError ''EOF marker not found'')) ''doc.pdf'' \<and>
   path_is_file (unreadable_pdf_world (LibraryError ''EOF marker not found'')) ''doc.pdf'' \<and>
   extract_pdf_text (unreadable_pdf_world (LibraryError ''EOF marker not found'')) ''doc.pdf''
     = Inl (LibraryError ''EOF marker not found'')"
  by (simp add: extract_pdf_text_def unreadable_pdf_world_def test_world_def)

text \<open>
  C5, amended: \<open>extract_pdf_text\<close> fails with \<open>FileNotFoundError\<close> whenever the
  path does not exist or is not a regular file. Whenever the file is there and the PDF
  library reads it and its pages without raising, the joined and trimmed result is empty
  exactly when no page has text other than whitespace, and then the function fails with
  the \<open>ValueError\<close> of the empty content; in every other such case it returns the
  joined text, the kept pages' sections separated by blank lines.
\<close>

theorem extract_pdf_text_outcomes:
  "(\<not> path_exists w p \<or> \<not> path_is_file w p \<longrightarrow>
      extract_pdf_text w p = Inl (FileNotFoundError (''PDF file not found: '' @ p))) \<and>
   (path_exists w p \<and> path_is_file w p \<and> pdf_pages w p = Inr (map Inr texts) \<longrightarrow>
      ((\<forall>t \<in> set texts. strip (or_empty t) = []) \<longleftrightarrow>
         strip (str_join ''\<newline>\<newline>'' (page_sections texts)) = []) \<and>
      extract_pdf_text w p =
        (if strip (str_join ''\<newline>\<newline>'' (page_sections texts)) = []
         then Inl (ValueError ''Could not extract any text from the PDF.'')
         else Inr (str_join ''\<newline>\<newline>'' (page_sections texts))))"
proof (cases "page_sections texts = []")
  case True
  then show ?thesis
    using page_sections_empty_iff [of texts]
    by (simp add: extract_pdf_text_def page_loop_from_one strip_def)
next
  case False
  then show ?thesis
    using page_sections_empty_iff [of texts] strip_join_page_sections [OF False]
    by (simp add: extract_pdf_text_def page_loop_from_one)
qed

theorem extract_pdf_text_outcomes_witness:
  "\<not> path_exists (test_world [] [] None) ''none.pdf'' \<and>
   extract_pdf_text (test_world [] [] None) ''none.pdf''
     = Inl (FileNotFoundError ''PDF file not found: none.pdf'') \<and>
   path_exists (test_world [Some ''  hi '', None, Some '' '', Some ''x''] [] None) ''doc.pdf'' \<and>
   path_is_file (test_world [Some ''  hi '', None, Some '' '', Some ''x''] [] None) ''doc.pdf'' \<and>
   pdf_pages (test_world [Some ''  hi '', None, Some '' '', Some ''x''] [] None) ''doc.pdf''
     = Inr (map Inr [Some ''  hi '', None, Some '' '', Some ''x'']) \<and>
   extract_pdf_text (test_world [Some ''  hi '', None, Some '' '', Some ''x''] [] None) ''doc.pdf''
     = Inr ''--- Page 1 ---\<newline>hi\<newline>\<newline>--- Page 4 ---\<newline>x'' \<and>
   pdf_pages (test_world [Some '' '', None] [] None) ''doc.pdf'' = Inr (map Inr [Some '' '', None]) \<and>
   extract_pdf_text (test_world [Some '' '', None] [] None) ''doc.pdf''
     = Inl (ValueError ''Could not extract any text from the PDF.'')"
  using extract_pdf_text_outcomes [of "test_world [] [] None" "''none.pdf''" "[]"]
    extract_pdf_text_outcomes
      [of "test_world [Some ''  hi '', None, Some '' '', Some ''x''] [] None" "''doc.pdf''"
        "[Some ''  hi '', None, Some '' '', Some ''x'']"]
    extract_pdf_text_outcomes
      [of "test_world [Some '' '', None] [] None" "''doc.pdf''" "[Some '' '', None]"]
  by (simp add: test_world_def page_sections_def page_section_def strip_def is_space_def
      str_nat.simps)

section \<open>The answer aggregator: properties\<close>

lemma ask_chunks_sent:
  "ask_chunks gen q chunks rs sent = (Inr rs', sent') \<Longrightarrow>
   sent' = sent @ map (\<lambda>c. build_prompt c q) chunks"
proof (induction chunks arbitrary: rs sent)
  case Nil
  then show ?case by simp
next
  case (Cons c chunks)
  from Cons.prems show ?case
    by (auto simp: Let_def split: sum.splits if_splits dest: Cons.IH)
qed

lemma ask_chunks_nonempty:
  "ask_chunks gen q chunks rs sent = (Inr rs', sent') \<Longrightarrow> [] \<notin> set rs \<Longrightarrow> [] \<notin> set rs'"
proof (induction chunks arbitrary: rs sent)
  case Nil
  then show ?case by simp
next
  case (Cons c chunks)
  from Cons.prems show ?case
    by (auto simp: Let_def split: sum.splits if_splits dest: Cons.IH)
qed

lemma chunk_text_max:
  "\<exists>chunks. chunk_text T MAX_CONTEXT_CHARS = Inr chunks"
  by (simp add: chunk_text_pos MAX_CONTEXT_CHARS_def)

lemma ask_gemini_after_loop:
  assumes "genai_import w = None"
    and "environ ''GEMINI_API_KEY'' = Some key" "key \<noteq> []"
    and "chunk_text pdf_text MAX_CONTEXT_CHARS = Inr chunks"
    and "ask_chunks (generate_content w m) q chunks [] [] = (Inr responses, sent)"
  shows "ask_gemini w environ pdf_text q m =
     (if responses = [] then (Inl (RuntimeError ''Gemini returned an empty response.''), sent)
      else if length responses = 1 then (Inr (responses ! 0), sent)
      else case generate_content w m (length sent) (summary_prompt responses) of
             Inl e \<Rightarrow> (Inl e, sent @ [summary_prompt responses])
           | Inr final_text \<Rightarrow>
               (Inr (if strip (or_empty final_text) \<noteq> [] then strip (or_empty final_text)
                     else str_join ''\<newline>\<newline>'' responses),
                sent @ [summary_prompt responses]))"
  using assms by (simp add: ask_gemini_def Let_def split: sum.splits)

lemma ask_gemini_loop_raises:
  assumes "genai_import w = None"
    and "environ ''GEMINI_API_KEY'' = Some key" "key \<noteq> []"
    and "chunk_text pdf_text MAX_CONTEXT_CHARS = Inr chunks"
    and "ask_chunks (generate_content w m) q chunks [] [] = (Inl e, sent)"
  shows "ask_gemini w environ pdf_text q m = (Inl e, sent)"
  using assms by (simp add: ask_gemini_def Let_def)

lemma ask_gemini_returns:
  assumes "ask_gemini w environ pdf_text q m = (Inr answer, sent)"
  shows "genai_import w = None \<and> (\<exists>key. environ ''GEMINI_API_KEY'' = Some key \<and> key \<noteq> [])"
  using assms
  by (cases "genai_import w"; cases "environ ''GEMINI_API_KEY''")
    (auto simp: ask_gemini_def split: if_splits)

lemma enumerate_from_nth:
  "map (\<lambda>(i, r). f i r) (enumerate_from k rs) = map (\<lambda>i. f (k + i) (rs ! i)) [0..<length rs]"
proof (induction rs arbitrary: k)
  case Nil
  then show ?case by simp
next
  case (Cons r rs)
  have "map (\<lambda>i. f (k + i) ((r # rs) ! i)) [0..<length (r # rs)]
          = f k r # map (\<lambda>i. f (k + Suc i) (rs ! i)) [0..<length rs]"
    by (simp add: upt_conv_Cons map_Suc_upt [symmetric] del: upt_Suc)
  then show ?case
    using Cons.IH [of "Suc k"] by simp
qed

lemma chunk_text_hello: "chunk_text ''hello'' MAX_CONTEXT_CHARS = Inr [''hello'']"
  by (simp add: chunk_text_def py_range_def range_up.simps py_slice_def slice_bound_def
      MAX_CONTEXT_CHARS_def)

lemma chunk_text_long:
  "chunk_text long_text MAX_CONTEXT_CHARS = Inr [replicate 120000 (CHR ''a''), ''b'']"
  by (simp add: chunk_text_def py_range_def range_up.simps py_slice_def slice_bound_def
      MAX_CONTEXT_CHARS_def long_text_def)

lemma genai_import_test_world: "genai_import (test_world texts replies wr) = None"
  by (simp add: test_world_def)

lemma ask_gemini_hello:
  "ask_gemini (test_world texts [Some '' yes ''] wr) [''GEMINI_API_KEY'' \<mapsto> ''k''] ''hello'' ''q''
     ''gemini-1.5-flash'' = (Inr ''yes'', [build_prompt ''hello'' ''q''])"
  by (simp add: ask_gemini_def chunk_text_hello test_world_def strip_def is_space_def Let_def)

lemma extract_missing:
  "extract_pdf_text (test_world texts replies wr) ''none.pdf''
     = Inl (FileNotFoundError ''PDF file not found: none.pdf'')"
  by (simp add: extract_pdf_text_def test_world_def)

lemma extract_page_text:
  "extract_pdf_text (test_world [Some ''hello''] replies wr) ''doc.pdf'' = Inr page_text"
  by (simp add: extract_pdf_text_def test_world_def page_section_def strip_def is_space_def
      str_nat.simps Let_def page_text_def)

lemma chunk_text_page_text: "chunk_text page_text MAX_CONTEXT_CHARS = Inr [page_text]"
  by (simp add: chunk_text_def py_range_def range_up.simps py_slice_def slice_bound_def
      MAX_CONTEXT_CHARS_def page_text_def)

lemma ask_gemini_page_text:
  "ask_gemini (test_world texts [Some '' yes ''] wr) [''GEMINI_API_KEY'' \<mapsto> ''k''] page_text ''q''
     ''gemini-1.5-flash'' = (Inr ''yes'', [build_prompt page_text ''q''])"
  by (simp add: ask_gemini_def chunk_text_page_text test_world_def strip_def is_space_def Let_def)

lemma ask_gemini_no_key:
  "genai_import w = None \<Longrightarrow>
   ask_gemini w Map.empty T q m =
     (Inl (EnvironmentError ''GEMINI_API_KEY is not set. Configure it in env or .env.''), [])"
  by (simp add: ask_gemini_def)

lemma load_env_file_test_world:
  "load_env_file (test_world texts replies wr) p environ = Inr environ"
  by (simp add: load_env_file_def test_world_def)

lemma ask_chunks_long:
  "ask_chunks (generate_content (test_world [] (Some '' x'' # Some ''y '' # rest) None) ''gemini-1.5-flash'')
     ''q'' [replicate 120000 (CHR ''a''), ''b''] [] []
     = (Inr [''x'', ''y''],
        [build_prompt (replicate 120000 (CHR ''a'')) ''q'', build_prompt ''b'' ''q''])"
  by (simp add: test_world_def strip_def is_space_def)

text \<open>
  C4, as stated: for every text, question and model name, when \<open>GEMINI_API_KEY\<close> is
  not configured \<open>ask_gemini\<close> fails with the \<open>EnvironmentError\<close> of the missing
  credential. The import of the client library comes before the test of the credential:
  in the run below the library is not installed, the credential is not configured, and
  the failure is the \<open>ImportError\<close>.
\<close>

theorem ask_gemini_import_counterexample:
  "Map.empty ''GEMINI_API_KEY'' = None \<and>
   ask_gemini no_client_world Map.empty ''hello'' ''q'' ''gemini-1.5-flash''
     = (Inl (ImportError ''No module named google.generativeai''), []) \<and>
   ask_gemini no_client_world Map.empty ''hello'' ''q'' ''gemini-1.5-flash''
     \<noteq> (Inl (EnvironmentError ''GEMINI_API_KEY is not set. Configure it in env or .env.''), [])"
  by (simp add: ask_gemini_def no_client_world_def test_world_def)

text \<open>
  C4, amended: for every text, question and model name, when \<open>GEMINI_API_KEY\<close> is
  unset or empty \<open>ask_gemini\<close> fails and has sent no prompt to the remote model; and
  where the client library is imported, the failure is the \<open>EnvironmentError\<close> of the
  missing credential.
\<close>

theorem ask_gemini_missing_credential:
  assumes "environ ''GEMINI_API_KEY'' = None \<or> environ ''GEMINI_API_KEY'' = Some []"
  shows "(\<exists>e. ask_gemini w environ pdf_text q m = (Inl e, [])) \<and>
         (genai_import w = None \<longrightarrow>
            ask_gemini w environ pdf_text q m =
              (Inl (EnvironmentError ''GEMINI_API_KEY is not set. Configure it in env or .env.''),
               []))"
  using assms by (cases "genai_import w") (auto simp: ask_gemini_def)

theorem ask_gemini_missing_credential_witness:
  "Map.empty ''GEMINI_API_KEY'' = None \<and>
   genai_import (test_world [] [Some ''yes''] None) = None \<and>
   ask_gemini (test_world [] [Some ''yes''] None) Map.empty ''hello'' ''q'' ''gemini-1.5-flash'' =
     (Inl (EnvironmentError ''GEMINI_API_KEY is not set. Configure it in env or .env.''), [])"
  using ask_gemini_missing_credential
    [of Map.empty "test_world [] [Some ''yes''] None" "''hello''" "''q''" "''gemini-1.5-flash''"]
  by (simp add: genai_import_test_world)

text \<open>
  C2. With the client library imported and the credential configured: when the loop over
  the chunks collects exactly one partial answer \<open>r\<close>, \<open>ask_gemini\<close> returns
  \<open>r\<close> itself, which is not empty, and the prompts sent are the chunks' prompts and
  nothing else: there is no merge call.
\<close>

theorem ask_gemini_single_answer:
  assumes "genai_import w = None"
    and "environ ''GEMINI_API_KEY'' = Some key" "key \<noteq> []"
    and "chunk_text pdf_text MAX_CONTEXT_CHARS = Inr chunks"
    and "ask_chunks (generate_content w m) q chunks [] [] = (Inr [r], sent)"
  shows "ask_gemini w environ pdf_text q m = (Inr r, sent) \<and>
         sent = map (\<lambda>c. build_prompt c q) chunks \<and> r \<noteq> []"
proof -
  have "ask_gemini w environ pdf_text q m = (Inr r, sent)"
    using ask_gemini_after_loop [where environ = environ, OF assms] by simp
  moreover have "sent = map (\<lambda>c. build_prompt c q) chunks"
    using ask_chunks_sent [OF assms(5)] by simp
  moreover have "r \<noteq> []"
    using ask_chunks_nonempty [OF assms(5)] by simp
  ultimately show ?thesis by simp
qed

theorem ask_gemini_single_answer_witness:
  "genai_import (test_world [] [Some '' yes ''] None) = None \<and>
   [''GEMINI_API_KEY'' \<mapsto> ''k''] ''GEMINI_API_KEY'' = Some ''k'' \<and> ''k'' \<noteq> [] \<and>
   chunk_text ''hello'' MAX_CONTEXT_CHARS = Inr [''hello''] \<and>
   ask_chunks (generate_content (test_world [] [Some '' yes ''] None) ''gemini-1.5-flash'') ''q''
     [''hello''] [] [] = (Inr [''yes''], [build_prompt ''hello'' ''q'']) \<and>
   ask_gemini (test_world [] [Some '' yes ''] None) [''GEMINI_API_KEY'' \<mapsto> ''k''] ''hello'' ''q''
     ''gemini-1.5-flash'' = (Inr ''yes'', [build_prompt ''hello'' ''q''])"
proof -
  have a: "[''GEMINI_API_KEY'' \<mapsto> ''k''] ''GEMINI_API_KEY'' = Some ''k''" "''k'' \<noteq> []"
    by simp_all
  have b: "ask_chunks (generate_content (test_world [] [Some '' yes ''] None) ''gemini-1.5-flash'') ''q''
     [''hello''] [] [] = (Inr [''yes''], [build_prompt ''hello'' ''q''])"
    by (simp add: test_world_def strip_def is_space_def)
  show ?thesis
    using ask_gemini_single_answer [where environ = "[''GEMINI_API_KEY'' \<mapsto> ''k'']",
        OF genai_import_test_world a chunk_text_hello b] a b chunk_text_hello
      genai_import_test_world [of "[]" "[Some '' yes '']" None]
    by simp
qed

text \<open>
  C3, as stated: in every run that collects more than one partial answer, the result is
  the trimmed merge result if that is not empty, and otherwise the partial answers joined
  with a blank line. In the run below two partial answers are collected and the merge
  call raises: \<open>ask_gemini\<close> raises the exception of the call and returns neither.
\<close>

theorem ask_gemini_merge_raises_counterexample:
  "chunk_text long_text MAX_CONTEXT_CHARS = Inr [replicate 120000 (CHR ''a''), ''b''] \<and>
   ask_chunks (generate_content (test_world [] [Some '' x'', Some ''y ''] None) ''gemini-1.5-flash'')
     ''q'' [replicate 120000 (CHR ''a''), ''b''] [] []
     = (Inr [''x'', ''y''],
        [build_prompt (replicate 120000 (CHR ''a'')) ''q'', build_prompt ''b'' ''q'']) \<and>
   1 < length [''x'', ''y''] \<and>
   generate_content (test_world [] [Some '' x'', Some ''y ''] None) ''gemini-1.5-flash''
     (length [build_prompt (replicate 120000 (CHR ''a'')) ''q'', build_prompt ''b'' ''q''])
     (summary_prompt [''x'', ''y'']) = Inl (LibraryError ''offline'') \<and>
   ask_gemini (test_world [] [Some '' x'', Some ''y ''] None)
     [''GEMINI_API_KEY'' \<mapsto> ''k''] long_text ''q'' ''gemini-1.5-flash''
     = (Inl (LibraryError ''offline''),
        [build_prompt (replicate 120000 (CHR ''a'')) ''q'', build_prompt ''b'' ''q'',
         summary_prompt [''x'', ''y'']])"
proof -
  let ?w = "test_world [] [Some '' x'', Some ''y ''] None"
  have a: "[''GEMINI_API_KEY'' \<mapsto> ''k''] ''GEMINI_API_KEY'' = Some ''k''" "''k'' \<noteq> []"
    by simp_all
  have b: "ask_chunks (generate_content ?w ''gemini-1.5-flash'')
     ''q'' [replicate 120000 (CHR ''a''), ''b''] [] []
     = (Inr [''x'', ''y''],
        [build_prompt (replicate 120000 (CHR ''a'')) ''q'', build_prompt ''b'' ''q''])"
    by (rule ask_chunks_long)
  have c: "1 < length [''x'', ''y'']"
    by simp
  have d: "generate_content ?w ''gemini-1.5-flash''
     (length [build_prompt (replicate 120000 (CHR ''a'')) ''q'', build_prompt ''b'' ''q''])
     (summary_prompt [''x'', ''y'']) = Inl (LibraryError ''offline'')"
    by (simp add: test_world_def)
  have r: "ask_gemini ?w [''GEMINI_API_KEY'' \<mapsto> ''k''] long_text ''q'' ''gemini-1.5-flash''
     = (Inl (LibraryError ''offline''),
        [build_prompt (replicate 120000 (CHR ''a'')) ''q'', build_prompt ''b'' ''q'',
         summary_prompt [''x'', ''y'']])"
    using ask_gemini_after_loop [where environ = "[''GEMINI_API_KEY'' \<mapsto> ''k'']",
        OF genai_import_test_world a chunk_text_long b] d
    by simp
  show ?thesis
    by (intro conjI chunk_text_long b c d r)
qed

text \<open>
  C3, amended: with the client library imported and the credential configured, when the
  loop over the chunks collects more than one partial answer and the merge call returns,
  \<open>ask_gemini\<close> returns the trimmed merge result if that is not empty, and otherwise
  the partial answers, in the order they were collected, joined with a blank line; the
  merge call is the one call after the chunks' calls, and its prompt lists each partial
  answer under the label \<open>Partial answer i\<close>, with \<open>i\<close> counted from 1.
\<close>

theorem ask_gemini_merge:
  assumes "genai_import w = None"
    and "environ ''GEMINI_API_KEY'' = Some key" "key \<noteq> []"
    and "chunk_text pdf_text MAX_CONTEXT_CHARS = Inr chunks"
    and "ask_chunks (generate_content w m) q chunks [] [] = (Inr responses, sent)"
    and "1 < length responses"
    and "generate_content w m (length sent) (summary_prompt responses) = Inr final_text"
  shows "ask_gemini w environ pdf_text q m =
           (Inr (if strip (or_empty final_text) \<noteq> [] then strip (or_empty final_text)
                 else str_join ''\<newline>\<newline>'' responses),
            map (\<lambda>c. build_prompt c q) chunks @ [summary_prompt responses]) \<and>
         summary_prompt responses =
           MERGE_INSTRUCTION @
           str_join ''\<newline>\<newline>''
             (map (\<lambda>i. ''Partial answer '' @ str_nat (i + 1) @ '':\<newline>'' @ responses ! i)
                [0..<length responses])"
proof -
  have ne: "responses \<noteq> []" "length responses \<noteq> 1"
    using assms(6) by auto
  have "sent = map (\<lambda>c. build_prompt c q) chunks"
    using ask_chunks_sent [OF assms(5)] by simp
  then have "ask_gemini w environ pdf_text q m =
           (Inr (if strip (or_empty final_text) \<noteq> [] then strip (or_empty final_text)
                 else str_join ''\<newline>\<newline>'' responses),
            map (\<lambda>c. build_prompt c q) chunks @ [summary_prompt responses])"
    using ask_gemini_after_loop [where environ = environ, OF assms(1-5)] ne assms(7) by simp
  moreover have "summary_prompt responses =
           MERGE_INSTRUCTION @
           str_join ''\<newline>\<newline>''
             (map (\<lambda>i. ''Partial answer '' @ str_nat (i + 1) @ '':\<newline>'' @ responses ! i)
                [0..<length responses])"
    unfolding summary_prompt_def
    using enumerate_from_nth [of "\<lambda>i r. ''Partial answer '' @ str_nat (i + 1) @ '':\<newline>'' @ r" 0 responses]
    by simp
  ultimately show ?thesis by simp
qed

theorem ask_gemini_merge_witness:
  "genai_import (test_world [] [Some '' x'', Some ''y '', None] None) = None \<and>
   [''GEMINI_API_KEY'' \<mapsto> ''k''] ''GEMINI_API_KEY'' = Some ''k'' \<and> ''k'' \<noteq> [] \<and>
   chunk_text long_text MAX_CONTEXT_CHARS = Inr [replicate 120000 (CHR ''a''), ''b''] \<and>
   ask_chunks (generate_content (test_world [] [Some '' x'', Some ''y '', None] None) ''gemini-1.5-flash'')
     ''q'' [replicate 120000 (CHR ''a''), ''b''] [] []
     = (Inr [''x'', ''y''],
        [build_prompt (replicate 120000 (CHR ''a'')) ''q'', build_prompt ''b'' ''q'']) \<and>
   1 < length [''x'', ''y''] \<and>
   generate_content (test_world [] [Some '' x'', Some ''y '', None] None) ''gemini-1.5-flash''
     (length [build_prompt (replicate 120000 (CHR ''a'')) ''q'', build_prompt ''b'' ''q''])
     (summary_prompt [''x'', ''y'']) = Inr None \<and>
   ask_gemini (test_world [] [Some '' x'', Some ''y '', None] None)
     [''GEMINI_API_KEY'' \<mapsto> ''k''] long_text ''q'' ''gemini-1.5-flash''
     = (Inr ''x\<newline>\<newline>y'',
        [build_prompt (replicate 120000 (CHR ''a'')) ''q'', build_prompt ''b'' ''q'',
         summary_prompt [''x'', ''y'']]) \<and>
   summary_prompt [''x'', ''y''] =
     MERGE_INSTRUCTION @ ''Partial answer 1:\<newline>x\<newline>\<newline>Partial answer 2:\<newline>y''"
proof -
  let ?w = "test_world [] [Some '' x'', Some ''y '', None] None"
  have a: "[''GEMINI_API_KEY'' \<mapsto> ''k''] ''GEMINI_API_KEY'' = Some ''k''" "''k'' \<noteq> []"
    by simp_all
  have b: "ask_chunks (generate_content ?w ''gemini-1.5-flash'')
     ''q'' [replicate 120000 (CHR ''a''), ''b''] [] []
     = (Inr [''x'', ''y''],
        [build_prompt (replicate 120000 (CHR ''a'')) ''q'', build_prompt ''b'' ''q''])"
    by (rule ask_chunks_long)
  have c: "1 < length [''x'', ''y'']"
    by simp
  have d: "generate_content ?w ''gemini-1.5-flash''
     (length [build_prompt (replicate 120000 (CHR ''a'')) ''q'', build_prompt ''b'' ''q''])
     (summary_prompt [''x'', ''y'']) = Inr None"
    by (simp add: test_world_def)
  show ?thesis
    using ask_gemini_merge [where environ = "[''GEMINI_API_KEY'' \<mapsto> ''k'']",
        OF genai_import_test_world a chunk_text_long b c d] a b c d chunk_text_long
      genai_import_test_world [of "[]" "[Some '' x'', Some ''y '', None]" None]
    by (simp add: strip_def str_nat.simps upt_conv_Cons del: upt_Suc)
qed

text \<open>
  C10. Whenever \<open>ask_gemini\<close> returns an answer, the answer is not empty; the loop
  over the chunks has then collected at least one partial answer, and none of the
  collected partial answers is empty.
\<close>

theorem ask_gemini_answer_nonempty:
  assumes "ask_gemini w environ pdf_text q m = (Inr answer, sent)"
  shows "answer \<noteq> [] \<and>
         (\<exists>chunks responses sent0.
            chunk_text pdf_text MAX_CONTEXT_CHARS = Inr chunks \<and>
            ask_chunks (generate_content w m) q chunks [] [] = (Inr responses, sent0) \<and>
            responses \<noteq> [] \<and> [] \<notin> set responses)"
proof -
  obtain key where imp: "genai_import w = None"
    and key: "environ ''GEMINI_API_KEY'' = Some key" "key \<noteq> []"
    using ask_gemini_returns [OF assms] by blast
  obtain chunks where chunks: "chunk_text pdf_text MAX_CONTEXT_CHARS = Inr chunks"
    using chunk_text_max by blast
  obtain res sent0 where loop: "ask_chunks (generate_content w m) q chunks [] [] = (res, sent0)"
    by (cases "ask_chunks (generate_content w m) q chunks [] []") auto
  show ?thesis
  proof (cases res)
    case (Inl e)
    then show ?thesis
      using ask_gemini_loop_raises [where environ = environ, OF imp key chunks] loop assms by simp
  next
    case (Inr responses)
    then have l: "ask_chunks (generate_content w m) q chunks [] [] = (Inr responses, sent0)"
      using loop by simp
    have ne: "[] \<notin> set responses"
      using ask_chunks_nonempty [OF l] by simp
    have r: "responses \<noteq> []"
      using ask_gemini_after_loop [where environ = environ, OF imp key chunks l] assms
      by (auto split: if_splits)
    have j: "str_join ''\<newline>\<newline>'' responses \<noteq> []"
      using str_join_ends [OF r ne] by simp
    have "answer \<noteq> []"
    proof (cases "length responses = 1")
      case True
      then have "answer = responses ! 0"
        using ask_gemini_after_loop [where environ = environ, OF imp key chunks l] assms r by simp
      moreover have "responses ! 0 \<in> set responses"
        using r by simp
      ultimately show ?thesis using ne by metis
    next
      case False
      then show ?thesis
        using ask_gemini_after_loop [where environ = environ, OF imp key chunks l] assms r j
        by (auto split: sum.splits if_splits)
    qed
    then show ?thesis
      using chunks l r ne by blast
  qed
qed

theorem ask_gemini_answer_nonempty_witness:
  "ask_gemini (test_world [] [Some '' yes ''] None) [''GEMINI_API_KEY'' \<mapsto> ''k''] ''hello'' ''q''
     ''gemini-1.5-flash'' = (Inr ''yes'', [build_prompt ''hello'' ''q'']) \<and> ''yes'' \<noteq> []"
  using ask_gemini_answer_nonempty [OF ask_gemini_hello [of "[]" None]] ask_gemini_hello [of "[]" None]
  by simp

section \<open>The command-line driver: properties\<close>

lemma print_all_ok:
  "(\<forall>line \<in> set lines. pr line = None) \<Longrightarrow> print_all pr lines = (lines, None)"
  by (induction lines) simp_all

lemma print_all_test_world:
  "print_all (print_result (test_world texts replies wr) s) lines = (lines, None)"
  by (rule print_all_ok) (simp add: test_world_def)

lemma path_str_test_world: "path_str (test_world texts replies wr) s = s"
  by (simp add: test_world_def)

lemma print_result_test_world: "print_result (test_world texts replies wr) s line = None"
  by (simp add: test_world_def)

text \<open>
  C9, as stated: every failure raised anywhere in a run, a failure while writing the
  answer file included, ends in a single-line \<open>Error:\<close> message on the error stream
  and a non-zero status returned. Four runs where it does not:
  \<^item> the write of the answer file raises: the statement is after the \<open>try\<close>
    statement, nothing is printed on the error stream, and the exception leaves
    \<open>main\<close>, which returns no status;
  \<^item> the PDF path holds a line break and names no file: the message, and with it the
    print on the error stream, has two lines;
  \<^item> the extraction is interrupted: \<open>KeyboardInterrupt\<close> is not of class
    \<open>Exception\<close>, so the handler does not catch it and it leaves \<open>main\<close>;
  \<^item> the error stream is closed: the print of the handler raises, and that exception
    leaves \<open>main\<close>.
\<close>

theorem main_failures_counterexample:
  "main (test_world [Some ''hello''] [Some '' yes ''] (Some (LibraryError ''disk full'')))
     [''GEMINI_API_KEY'' \<mapsto> ''k''] (test_args ''doc.pdf'' (Some ''out.txt''))
   = \<lparr>outcome = Inl (LibraryError ''disk full''),
      stdout = [''\<newline>=== Question ==='', ''q'', ''\<newline>=== Answer ==='', ''yes''],
      stderr = [], prompts = [build_prompt page_text ''q''], files = []\<rparr> \<and>
   main (test_world [] [] None) Map.empty (test_args ''a\<newline>b.pdf'' None)
   = \<lparr>outcome = Inr 1, stdout = [], stderr = [''Error: PDF file not found: a\<newline>b.pdf''],
      prompts = [], files = []\<rparr> \<and>
   CHR 0x0A \<in> set ''Error: PDF file not found: a\<newline>b.pdf'' \<and>
   main (unreadable_pdf_world KeyboardInterrupt) Map.empty (test_args ''doc.pdf'' None)
   = \<lparr>outcome = Inl KeyboardInterrupt, stdout = [], stderr = [], prompts = [], files = []\<rparr> \<and>
   main closed_streams_world Map.empty (test_args ''none.pdf'' None)
   = \<lparr>outcome = Inl (LibraryError ''broken pipe''), stdout = [], stderr = [], prompts = [],
      files = []\<rparr>"
proof -
  have 1: "main (test_world [Some ''hello''] [Some '' yes ''] (Some (LibraryError ''disk full'')))
     [''GEMINI_API_KEY'' \<mapsto> ''k''] (test_args ''doc.pdf'' (Some ''out.txt''))
   = \<lparr>outcome = Inl (LibraryError ''disk full''),
      stdout = [''\<newline>=== Question ==='', ''q'', ''\<newline>=== Answer ==='', ''yes''],
      stderr = [], prompts = [build_prompt page_text ''q''], files = []\<rparr>"
  proof -
    have wt: "write_text (test_world [Some ''hello''] [Some '' yes ''] (Some (LibraryError ''disk full'')))
        ''out.txt'' ''yes\<newline>'' = Some (LibraryError ''disk full'')"
      by (simp add: test_world_def)
    show ?thesis
      by (simp add: main_def test_args_def path_str_test_world extract_page_text
          load_env_file_test_world ask_gemini_page_text print_all_test_world wt
          del: print_all.simps)
  qed
  have 2: "main (test_world [] [] None) Map.empty (test_args ''a\<newline>b.pdf'' None)
   = \<lparr>outcome = Inr 1, stdout = [], stderr = [''Error: PDF file not found: a\<newline>b.pdf''],
      prompts = [], files = []\<rparr>"
    by (simp add: main_def test_args_def load_env_file_def extract_pdf_text_def test_world_def)
  have 3: "main (unreadable_pdf_world KeyboardInterrupt) Map.empty (test_args ''doc.pdf'' None)
   = \<lparr>outcome = Inl KeyboardInterrupt, stdout = [], stderr = [], prompts = [], files = []\<rparr>"
    by (simp add: main_def test_args_def load_env_file_def extract_pdf_text_def
        unreadable_pdf_world_def test_world_def)
  have 4: "main closed_streams_world Map.empty (test_args ''none.pdf'' None)
   = \<lparr>outcome = Inl (LibraryError ''broken pipe''), stdout = [], stderr = [], prompts = [],
      files = []\<rparr>"
    by (simp add: main_def test_args_def load_env_file_def extract_pdf_text_def
        closed_streams_world_def test_world_def)
  have 5: "CHR 0x0A \<in> set ''Error: PDF file not found: a\<newline>b.pdf''"
    by simp
  show ?thesis
    by (intro conjI 1 2 3 4 5)
qed

text \<open>
  C9, amended: in every run of \<open>main\<close> on parsed arguments that has loaded the
  environment file, a failure of class \<open>Exception\<close> raised by the extraction or by
  the aggregation results, where the print of the handler succeeds, in exactly one print
  on the error stream, \<open>Error:\<close> followed by the message, nothing on the output
  stream, and status 1; the printed text has a line break exactly when the message has
  one. And every such run in which extraction, aggregation and the prints succeed and
  the answer file, when one is asked for, is written without failure returns status 0
  with nothing on the error stream, after printing the question and the answer under
  their headings.
\<close>

theorem main_outcomes:
  "(load_env_file w (env_file a) os_environ = Inr environ \<and>
    is_Exception exc \<and> print_result w Stderr (''Error: '' @ str_exn exc) = None \<and>
    extract_pdf_text w (path_str w (pdf a)) = Inl exc \<longrightarrow>
      main w os_environ a =
        \<lparr>outcome = Inr 1, stdout = [], stderr = [''Error: '' @ str_exn exc],
         prompts = [], files = []\<rparr>) \<and>
   (load_env_file w (env_file a) os_environ = Inr environ \<and>
    is_Exception exc \<and> print_result w Stderr (''Error: '' @ str_exn exc) = None \<and>
    extract_pdf_text w (path_str w (pdf a)) = Inr pdf_text \<and>
    ask_gemini w environ pdf_text (question a) (model a) = (Inl exc, sent) \<longrightarrow>
      main w os_environ a =
        \<lparr>outcome = Inr 1, stdout = [], stderr = [''Error: '' @ str_exn exc],
         prompts = sent, files = []\<rparr>) \<and>
   (CHR 0x0A \<in> set (''Error: '' @ str_exn exc)) = (CHR 0x0A \<in> set (str_exn exc)) \<and>
   (load_env_file w (env_file a) os_environ = Inr environ \<and>
    extract_pdf_text w (path_str w (pdf a)) = Inr pdf_text \<and>
    ask_gemini w environ pdf_text (question a) (model a) = (Inr answer, sent) \<and>
    (\<forall>line \<in> set [''\<newline>=== Question ==='', question a, ''\<newline>=== Answer ==='', answer].
       print_result w Stdout line = None) \<and>
    (or_empty (save_answer a) = [] \<or>
     write_text w (path_str w (or_empty (save_answer a))) (answer @ ''\<newline>'') = None \<and>
     print_result w Stdout
       (''\<newline>Saved answer to: '' @ path_str w (or_empty (save_answer a))) = None) \<longrightarrow>
      outcome (main w os_environ a) = Inr 0 \<and> stderr (main w os_environ a) = [] \<and>
      take 4 (stdout (main w os_environ a)) =
        [''\<newline>=== Question ==='', question a, ''\<newline>=== Answer ==='', answer])"
proof (intro conjI impI)
  assume "load_env_file w (env_file a) os_environ = Inr environ \<and>
    is_Exception exc \<and> print_result w Stderr (''Error: '' @ str_exn exc) = None \<and>
    extract_pdf_text w (path_str w (pdf a)) = Inl exc"
  then show "main w os_environ a =
        \<lparr>outcome = Inr 1, stdout = [], stderr = [''Error: '' @ str_exn exc],
         prompts = [], files = []\<rparr>"
    by (simp add: main_def Let_def)
next
  assume "load_env_file w (env_file a) os_environ = Inr environ \<and>
    is_Exception exc \<and> print_result w Stderr (''Error: '' @ str_exn exc) = None \<and>
    extract_pdf_text w (path_str w (pdf a)) = Inr pdf_text \<and>
    ask_gemini w environ pdf_text (question a) (model a) = (Inl exc, sent)"
  then show "main w os_environ a =
        \<lparr>outcome = Inr 1, stdout = [], stderr = [''Error: '' @ str_exn exc],
         prompts = sent, files = []\<rparr>"
    by (simp add: main_def Let_def)
next
  show "(CHR 0x0A \<in> set (''Error: '' @ str_exn exc)) = (CHR 0x0A \<in> set (str_exn exc))"
    by simp
next
  assume h: "load_env_file w (env_file a) os_environ = Inr environ \<and>
    extract_pdf_text w (path_str w (pdf a)) = Inr pdf_text \<and>
    ask_gemini w environ pdf_text (question a) (model a) = (Inr answer, sent) \<and>
    (\<forall>line \<in> set [''\<newline>=== Question ==='', question a, ''\<newline>=== Answer ==='', answer].
       print_result w Stdout line = None) \<and>
    (or_empty (save_answer a) = [] \<or>
     write_text w (path_str w (or_empty (save_answer a))) (answer @ ''\<newline>'') = None \<and>
     print_result w Stdout
       (''\<newline>Saved answer to: '' @ path_str w (or_empty (save_answer a))) = None)"
  then have pa: "print_all (print_result w Stdout)
      [''\<newline>=== Question ==='', question a, ''\<newline>=== Answer ==='', answer]
    = ([''\<newline>=== Question ==='', question a, ''\<newline>=== Answer ==='', answer], None)"
    by (intro print_all_ok) blast
  from h have m: "outcome (main w os_environ a) = Inr 0 \<and> stderr (main w os_environ a) = [] \<and>
      take 4 (stdout (main w os_environ a)) =
        [''\<newline>=== Question ==='', question a, ''\<newline>=== Answer ==='', answer]"
    by (auto simp: main_def Let_def pa simp del: print_all.simps)
  from m show "outcome (main w os_environ a) = Inr 0" by simp
  from m show "stderr (main w os_environ a) = []" by simp
  from m show "take 4 (stdout (main w os_environ a)) =
        [''\<newline>=== Question ==='', question a, ''\<newline>=== Answer ==='', answer]" by simp
qed

theorem main_outcomes_witness:
  "load_env_file (test_world [] [] None) (env_file (test_args ''none.pdf'' None)) Map.empty
     = Inr Map.empty \<and>
   is_Exception (FileNotFoundError ''PDF file not found: none.pdf'') \<and>
   print_result (test_world [] [] None) Stderr ''Error: PDF file not found: none.pdf'' = None \<and>
   extract_pdf_text (test_world [] [] None)
     (path_str (test_world [] [] None) (pdf (test_args ''none.pdf'' None)))
     = Inl (FileNotFoundError ''PDF file not found: none.pdf'') \<and>
   main (test_world [] [] None) Map.empty (test_args ''none.pdf'' None)
     = \<lparr>outcome = Inr 1, stdout = [], stderr = [''Error: PDF file not found: none.pdf''],
        prompts = [], files = []\<rparr> \<and>
   is_Exception (EnvironmentError ''GEMINI_API_KEY is not set. Configure it in env or .env.'') \<and>
   extract_pdf_text (test_world [Some ''hello''] [] None)
     (path_str (test_world [Some ''hello''] [] None) (pdf (test_args ''doc.pdf'' None)))
     = Inr page_text \<and>
   ask_gemini (test_world [Some ''hello''] [] None) Map.empty
     page_text (question (test_args ''doc.pdf'' None)) (model (test_args ''doc.pdf'' None))
     = (Inl (EnvironmentError ''GEMINI_API_KEY is not set. Configure it in env or .env.''), []) \<and>
   main (test_world [Some ''hello''] [] None) Map.empty (test_args ''doc.pdf'' None)
     = \<lparr>outcome = Inr 1, stdout = [],
        stderr = [''Error: GEMINI_API_KEY is not set. Configure it in env or .env.''],
        prompts = [], files = []\<rparr> \<and>
   load_env_file (test_world [Some ''hello''] [Some '' yes ''] None)
     (env_file (test_args ''doc.pdf'' (Some ''out.txt''))) [''GEMINI_API_KEY'' \<mapsto> ''k'']
     = Inr [''GEMINI_API_KEY'' \<mapsto> ''k''] \<and>
   extract_pdf_text (test_world [Some ''hello''] [Some '' yes ''] None)
     (path_str (test_world [Some ''hello''] [Some '' yes ''] None)
        (pdf (test_args ''doc.pdf'' (Some ''out.txt'')))) = Inr page_text \<and>
   ask_gemini (test_world [Some ''hello''] [Some '' yes ''] None) [''GEMINI_API_KEY'' \<mapsto> ''k'']
     page_text (question (test_args ''doc.pdf'' (Some ''out.txt'')))
     (model (test_args ''doc.pdf'' (Some ''out.txt'')))
     = (Inr ''yes'', [build_prompt page_text ''q'']) \<and>
   print_result (test_world [Some ''hello''] [Some '' yes ''] None) Stdout ''yes'' = None \<and>
   write_text (test_world [Some ''hello''] [Some '' yes ''] None)
     (path_str (test_world [Some ''hello''] [Some '' yes ''] None)
        (or_empty (save_answer (test_args ''doc.pdf'' (Some ''out.txt'')))))
     (''yes'' @ ''\<newline>'') = None \<and>
   outcome (main (test_world [Some ''hello''] [Some '' yes ''] None)
     [''GEMINI_API_KEY'' \<mapsto> ''k''] (test_args ''doc.pdf'' (Some ''out.txt''))) = Inr 0 \<and>
   stderr (main (test_world [Some ''hello''] [Some '' yes ''] None)
     [''GEMINI_API_KEY'' \<mapsto> ''k''] (test_args ''doc.pdf'' (Some ''out.txt''))) = [] \<and>
   take 4 (stdout (main (test_world [Some ''hello''] [Some '' yes ''] None)
     [''GEMINI_API_KEY'' \<mapsto> ''k''] (test_args ''doc.pdf'' (Some ''out.txt''))))
     = [''\<newline>=== Question ==='', ''q'', ''\<newline>=== Answer ==='', ''yes'']"
proof -
  let ?w1 = "test_world [] [] None"
  let ?a1 = "test_args ''none.pdf'' None"
  let ?w2 = "test_world [Some ''hello''] [] None"
  let ?a2 = "test_args ''doc.pdf'' None"
  let ?w3 = "test_world [Some ''hello''] [Some '' yes ''] None"
  let ?a3 = "test_args ''doc.pdf'' (Some ''out.txt'')"
  have l1: "load_env_file ?w1 (env_file ?a1) Map.empty = Inr Map.empty"
    by (rule load_env_file_test_world)
  have e1: "extract_pdf_text ?w1 (path_str ?w1 (pdf ?a1))
     = Inl (FileNotFoundError ''PDF file not found: none.pdf'')"
    by (simp add: test_args_def path_str_test_world extract_missing)
  have p1: "print_result ?w1 Stderr
      (''Error: '' @ str_exn (FileNotFoundError ''PDF file not found: none.pdf'')) = None"
    by (rule print_result_test_world)
  have l2: "load_env_file ?w2 (env_file ?a2) Map.empty = Inr Map.empty"
    by (rule load_env_file_test_world)
  have e2: "extract_pdf_text ?w2 (path_str ?w2 (pdf ?a2)) = Inr page_text"
    by (simp add: test_args_def path_str_test_world extract_page_text)
  have a2: "ask_gemini ?w2 Map.empty page_text (question ?a2) (model ?a2)
     = (Inl (EnvironmentError ''GEMINI_API_KEY is not set. Configure it in env or .env.''), [])"
    by (simp add: ask_gemini_no_key genai_import_test_world)
  have p2: "print_result ?w2 Stderr
      (''Error: '' @ str_exn (EnvironmentError ''GEMINI_API_KEY is not set. Configure it in env or .env.''))
      = None"
    by (rule print_result_test_world)
  have l3: "load_env_file ?w3 (env_file ?a3) [''GEMINI_API_KEY'' \<mapsto> ''k'']
     = Inr [''GEMINI_API_KEY'' \<mapsto> ''k'']"
    by (rule load_env_file_test_world)
  have e3: "extract_pdf_text ?w3 (path_str ?w3 (pdf ?a3)) = Inr page_text"
    by (simp add: test_args_def path_str_test_world extract_page_text)
  have a3: "ask_gemini ?w3 [''GEMINI_API_KEY'' \<mapsto> ''k''] page_text (question ?a3) (model ?a3)
     = (Inr ''yes'', [build_prompt page_text ''q''])"
    by (simp add: test_args_def ask_gemini_page_text)
  have p3: "\<forall>line \<in> set [''\<newline>=== Question ==='', question ?a3, ''\<newline>=== Answer ==='', ''yes''].
       print_result ?w3 Stdout line = None"
    by (simp add: print_result_test_world)
  have w3: "write_text ?w3 (path_str ?w3 (or_empty (save_answer ?a3))) (''yes'' @ ''\<newline>'') = None"
    by (simp add: test_world_def)
  have s3: "print_result ?w3 Stdout
       (''\<newline>Saved answer to: '' @ path_str ?w3 (or_empty (save_answer ?a3))) = None"
    by (rule print_result_test_world)
  have x1: "is_Exception (FileNotFoundError ''PDF file not found: none.pdf'')"
    and x2: "is_Exception (EnvironmentError ''GEMINI_API_KEY is not set. Configure it in env or .env.'')"
    by simp_all
  note m1 = main_outcomes [where w = ?w1 and a = ?a1 and os_environ = Map.empty
      and environ = Map.empty and exc = "FileNotFoundError ''PDF file not found: none.pdf''",
      THEN conjunct1, rule_format, OF conjI [OF l1 conjI [OF x1 conjI [OF p1 e1]]]]
  note m2 = main_outcomes [where w = ?w2 and a = ?a2 and os_environ = Map.empty
      and environ = Map.empty and pdf_text = page_text
      and exc = "EnvironmentError ''GEMINI_API_KEY is not set. Configure it in env or .env.''"
      and sent = "[]",
      THEN conjunct2, THEN conjunct1, rule_format,
      OF conjI [OF l2 conjI [OF x2 conjI [OF p2 conjI [OF e2 a2]]]]]
  note m3 = main_outcomes [where w = ?w3 and a = ?a3
      and os_environ = "[''GEMINI_API_KEY'' \<mapsto> ''k'']"
      and environ = "[''GEMINI_API_KEY'' \<mapsto> ''k'']" and pdf_text = page_text
      and answer = "''yes''" and sent = "[build_prompt page_text ''q'']",
      THEN conjunct2, THEN conjunct2, THEN conjunct2, rule_format,
      OF conjI [OF l3 conjI [OF e3 conjI [OF a3 conjI [OF p3 disjI2 [OF conjI [OF w3 s3]]]]]]]
  show ?thesis
    using l1 l3 e1 e2 a2 e3 a3 w3 m1 m2 m3
    by (simp add: test_args_def print_result_test_world)
qed

end
